theory Spec2Isabelle
  imports Main
begin

section \<open>The txkube network client (\<open>src/txkube/_network.py\<close>)\<close>

text \<open>
  The module maps four operations (create, get, delete, list) onto HTTP requests
  against a Kubernetes API server and turns the responses into domain objects or
  failures. Everything below is a translation of that module, read as Python 2 (the
  \<open>u"..."\<close> literals; \<open>json.dumps\<close> returns a byte string, which is what the
  \<open>instance_of(bytes)\<close> validator of \<open>_BytesProducer\<close> accepts).

  Naming: a leading underscore of a Python name is written as the prefix \<open>u_\<close>
  (\<open>_request\<close> is \<open>u_request\<close>, \<open>_data\<close> is \<open>u_data\<close>).

  Python text and byte strings are both \<open>string\<close> (a list of 8-bit characters).
\<close>

type_synonym bytes = string


subsection \<open>Domain objects\<close>

text \<open>
  Modelled from the spec: the domain object model is not part of this module, which
  reads an object only through \<open>obj.kind\<close> (a string), \<open>obj.metadata.name\<close> (a
  string) and \<open>obj.metadata.namespace\<close> (an optional string, \<open>None\<close> when the object is
  not namespaced). Both records are extensible: every other field of the metadata and of
  the object lives in the record's extension, which no function of this module reads.
\<close>

record object_metadata =
  name :: string
  namespace :: "string option"

record 'm k8s_object =
  kind :: string
  metadata :: "'m object_metadata_scheme"

text \<open>
  The argument of \<open>collection_location\<close> (and of \<open>list\<close>) is either an object, for
  which \<open>IObject.providedBy\<close> holds, or a type that represents a kind, for which it does
  not; of the latter only its \<open>kind\<close> attribute is read.
\<close>

datatype ('m, 'z) resource =
    Instance "('m, 'z) k8s_object_scheme"
  | Kind string

fun resource_kind :: "('m, 'z) resource \<Rightarrow> string" where
  "resource_kind (Instance obj) = kind obj"
| "resource_kind (Kind k) = k"


subsection \<open>Path segments\<close>

text \<open>
  \<open>kind.lower()\<close>: the upper-case ASCII letters are mapped to lower case and every other
  character is kept. (Python also lowers letters beyond ASCII; the kinds of the
  Kubernetes API are ASCII identifiers, and no theorem below depends on which letters
  \<open>lower\<close> changes.)
\<close>

definition lower_char :: "char \<Rightarrow> char" where
  "lower_char c =
     (if (65::nat) \<le> of_char c \<and> of_char c \<le> (90::nat)
      then char_of (of_char c + (32::nat)) else c)"

definition lower :: "string \<Rightarrow> string" where
  "lower s = map lower_char s"

definition collection_location :: "('m, 'z) resource \<Rightarrow> string list" where
  "collection_location obj =
     (let kind = resource_kind obj;
          collection = lower kind @ ''s'';
          namespace = (case obj of
                         Instance inst \<Rightarrow> namespace (metadata inst)
                       | Kind _ \<Rightarrow> None)
      in case namespace of
           None \<Rightarrow> [''api'', ''v1'', collection]
         | Some ns \<Rightarrow> [''api'', ''v1'', ''namespaces'', ns, collection])"

definition object_location :: "('m, 'z) k8s_object_scheme \<Rightarrow> string list" where
  "object_location obj = collection_location (Instance obj) @ [name (metadata obj)]"


subsection \<open>URLs, requests and responses\<close>

text \<open>
  \<open>twisted.python.url.URL\<close>, as far as this module uses it: the text up to the path
  (scheme and authority) and the path segments. \<open>child\<close> appends segments, after
  dropping an empty last segment (the one a trailing slash leaves).
\<close>

record url =
  origin :: string
  path :: "string list"

definition child :: "url \<Rightarrow> string list \<Rightarrow> url" where
  "child u segments =
     u\<lparr>path := (if path u \<noteq> [] \<and> last (path u) = [] then butlast (path u) else path u)
                 @ segments\<rparr>"

text \<open>
  \<open>_BytesProducer\<close>: a frozen class with the one attribute \<open>_data\<close>, validated to be a
  byte string. Its \<open>length\<close> property (here \<open>length_bp\<close>, since \<open>length\<close> is the list
  function) is what the agent declares as the content length; \<open>startProducing\<close> writes the
  data to the consumer (modelled as the bytes written so far) in one piece. The other
  three methods of the class do nothing.
\<close>

record BytesProducer =
  u_data :: bytes

definition length_bp :: "BytesProducer \<Rightarrow> nat" where
  "length_bp self = length (u_data self)"

text \<open>
  The arguments of one \<open>agent.request\<close> call. The module passes the URL as
  \<open>url.asText().encode("ascii")\<close>; the model hands the agent the URL itself and leaves its
  rendering to the agent.
\<close>

record http_request =
  http_method :: bytes
  uri :: url
  headers :: "(string \<times> string) list option"
  bodyProducer :: "BytesProducer option"

text \<open>
  A response as the agent delivers it: the status code, and what reading the body
  (\<open>readBody\<close>) gives, the bytes or the reason the connection was lost while reading.
\<close>

record response =
  code :: int
  body :: "string + bytes"

definition OK :: int where
  "OK = 200"

definition CREATED :: int where
  "CREATED = 201"


subsection \<open>Failures and Deferreds\<close>

text \<open>
  The exceptions a call can end with. \<open>ConnectionError\<close> is a transport failure, of the
  request or of the body read; \<open>DecodeError\<close> is the \<open>ValueError\<close> of \<open>json.loads\<close>;
  \<open>SchemaError\<close> is what \<open>object_from_raw\<close> raises on a document it does not accept.

  Modelled from the spec: \<open>KubernetesError\<close> (the spec's ServerError) is defined
  outside this module; it carries the status code and the body of the response.
\<close>

datatype exception =
    KubernetesError int bytes
  | DecodeError
  | SchemaError
  | ConnectionError string

text \<open>
  A Deferred that has fired: the requests handed to the agent on the way, in order, and
  the result, \<open>Inl\<close> for a failure. \<open>addCallback\<close> runs the callback on a success only
  and chains the Deferred the callback returns; a failure passes through, so no later
  callback sees it. \<open>Failure exc\<close> is the result of a callback that returns
  \<open>Failure(exc)\<close> or raises \<open>exc\<close>.
\<close>

type_synonym 'a deferred = "http_request list \<times> (exception + 'a)"

definition succeed :: "'a \<Rightarrow> 'a deferred" where
  "succeed v = ([], Inr v)"

definition Failure :: "exception \<Rightarrow> 'a deferred" where
  "Failure exc = ([], Inl exc)"

definition addCallback :: "'a deferred \<Rightarrow> ('a \<Rightarrow> 'b deferred) \<Rightarrow> 'b deferred" where
  "addCallback d callback =
     (case d of
        (sent, Inl exc) \<Rightarrow> (sent, Inl exc)
      | (sent, Inr v) \<Rightarrow> (case callback v of (sent', r) \<Rightarrow> (sent @ sent', r)))"

definition startProducing :: "BytesProducer \<Rightarrow> bytes \<Rightarrow> bytes \<times> unit deferred" where
  "startProducing self consumer = (consumer @ u_data self, succeed ())"

definition readBody :: "response \<Rightarrow> bytes deferred" where
  "readBody response =
     (case body response of
        Inl reason \<Rightarrow> Failure (ConnectionError reason)
      | Inr content \<Rightarrow> succeed content)"


subsection \<open>Collaborators\<close>

text \<open>
  The functions this module imports and calls but does not define: \<open>json.dumps\<close> and
  \<open>json.loads\<close> (\<open>None\<close> where \<open>loads\<close> raises \<open>ValueError\<close>), the object's \<open>to_raw\<close>, and
  \<open>object_from_raw\<close> (\<open>None\<close> where it raises). They are parameters of the model.
\<close>

record ('raw, 'obj, 'res) collaborators =
  json_dumps :: "'raw \<Rightarrow> bytes"
  json_loads :: "bytes \<Rightarrow> 'raw option"
  obj_to_raw :: "'obj \<Rightarrow> 'raw"
  obj_from_raw :: "'raw \<Rightarrow> 'res option"

definition dumps :: "('raw, 'obj, 'res) collaborators \<Rightarrow> 'raw \<Rightarrow> bytes" where
  "dumps env document = json_dumps env document"

definition to_raw :: "('raw, 'obj, 'res) collaborators \<Rightarrow> 'obj \<Rightarrow> 'raw" where
  "to_raw env obj = obj_to_raw env obj"

definition loads :: "('raw, 'obj, 'res) collaborators \<Rightarrow> bytes \<Rightarrow> 'raw deferred" where
  "loads env raw =
     (case json_loads env raw of
        None \<Rightarrow> Failure DecodeError
      | Some document \<Rightarrow> succeed document)"

definition object_from_raw :: "('raw, 'obj, 'res) collaborators \<Rightarrow> 'raw \<Rightarrow> 'res deferred" where
  "object_from_raw env document =
     (case obj_from_raw env document of
        None \<Rightarrow> Failure SchemaError
      | Some obj \<Rightarrow> succeed obj)"

text \<open>
  Modelled from the spec: \<open>KubernetesError.from_response\<close> is defined outside this
  module. It reads the body of the response and fires with a \<open>KubernetesError\<close> that
  carries the status code and the body; when the body cannot be read, that failure is
  its result instead.
\<close>

definition from_response :: "response \<Rightarrow> exception deferred" where
  "from_response response =
     addCallback (readBody response)
       (\<lambda>content. succeed (KubernetesError (code response) content))"


subsection \<open>Status check\<close>

definition check_status :: "response \<Rightarrow> int list \<Rightarrow> response deferred" where
  "check_status response expected =
     (if code response \<notin> set expected
      then (let d = from_response response;
                d = addCallback d Failure
            in d)
      else succeed response)"

text \<open>
  \<open>log_response_object\<close> attaches the document to the Eliot action and returns it. The
  Eliot log is write-only for this module (nothing here reads it back) and is not part
  of the model, so only the returned value remains; the same holds for the
  \<open>start_action\<close> calls of the operations.
\<close>

definition log_response_object :: "'raw \<Rightarrow> 'raw" where
  "log_response_object document = document"


subsection \<open>The endpoint and its clients\<close>

text \<open>
  The agent is the capability "issue a request, get a response": a function from the
  request to the response, or to the reason the request failed. The \<open>provides(IAgent)\<close>
  and \<open>provides(IKubernetes)\<close> validators of the two frozen classes are the types of
  the fields here.
\<close>

type_synonym agent = "http_request \<Rightarrow> string + response"

record NetworkKubernetes =
  base_url :: url
  u_agent :: agent

record NetworkClient =
  kubernetes :: NetworkKubernetes
  agent :: agent

definition network_kubernetes :: "url \<Rightarrow> agent \<Rightarrow> NetworkKubernetes" where
  "network_kubernetes b a = \<lparr>base_url = b, u_agent = a\<rparr>"

definition client :: "NetworkKubernetes \<Rightarrow> NetworkClient" where
  "client self = \<lparr>kubernetes = self, agent = u_agent self\<rparr>"

definition u_request ::
  "NetworkClient \<Rightarrow> bytes \<Rightarrow> url \<Rightarrow> (string \<times> string) list option
     \<Rightarrow> BytesProducer option \<Rightarrow> response deferred" where
  "u_request self meth url hdrs producer =
     (let request = \<lparr>http_method = meth, uri = url, headers = hdrs, bodyProducer = producer\<rparr>
      in ([request],
          case agent self request of
            Inl reason \<Rightarrow> Inl (ConnectionError reason)
          | Inr response \<Rightarrow> Inr response))"

definition u_get :: "NetworkClient \<Rightarrow> url \<Rightarrow> response deferred" where
  "u_get self url = u_request self ''GET'' url None None"

definition u_delete :: "NetworkClient \<Rightarrow> url \<Rightarrow> response deferred" where
  "u_delete self url = u_request self ''DELETE'' url None None"

definition u_post ::
  "('raw, 'obj, 'res) collaborators \<Rightarrow> NetworkClient \<Rightarrow> url \<Rightarrow> 'raw \<Rightarrow> response deferred" where
  "u_post env self url obj =
     u_request self ''POST'' url None (Some \<lparr>u_data = dumps env obj\<rparr>)"

definition create ::
  "('raw, ('m, 'z) k8s_object_scheme, 'res) collaborators \<Rightarrow> NetworkClient
     \<Rightarrow> ('m, 'z) k8s_object_scheme \<Rightarrow> 'res deferred" where
  "create env self obj =
     (let url = child (base_url (kubernetes self)) (collection_location (Instance obj));
          document = to_raw env obj;
          d = u_post env self url document;
          d = addCallback d (\<lambda>response. check_status response [CREATED]);
          d = addCallback d readBody;
          d = addCallback d (loads env);
          d = addCallback d (\<lambda>document. succeed (log_response_object document));
          d = addCallback d (object_from_raw env)
      in d)"

definition get ::
  "('raw, 'obj, 'res) collaborators \<Rightarrow> NetworkClient
     \<Rightarrow> ('m, 'z) k8s_object_scheme \<Rightarrow> 'res deferred" where
  "get env self obj =
     (let url = child (base_url (kubernetes self)) (object_location obj);
          d = u_get self url;
          d = addCallback d (\<lambda>response. check_status response [OK]);
          d = addCallback d readBody;
          d = addCallback d (loads env);
          d = addCallback d (\<lambda>document. succeed (log_response_object document));
          d = addCallback d (object_from_raw env)
      in d)"

definition delete :: "NetworkClient \<Rightarrow> ('m, 'z) k8s_object_scheme \<Rightarrow> unit deferred" where
  "delete self obj =
     (let url = child (base_url (kubernetes self)) (object_location obj);
          d = u_delete self url;
          d = addCallback d (\<lambda>response. check_status response [OK]);
          d = addCallback d readBody;
          d = addCallback d (\<lambda>raw. succeed ())
      in d)"

definition list ::
  "('raw, 'obj, 'res) collaborators \<Rightarrow> NetworkClient
     \<Rightarrow> ('m, 'z) resource \<Rightarrow> 'res deferred" where
  "list env self knd =
     (let url = child (base_url (kubernetes self)) (collection_location knd);
          d = u_get self url;
          d = addCallback d (\<lambda>response. check_status response [OK]);
          d = addCallback d readBody;
          d = addCallback d (loads env);
          d = addCallback d (object_from_raw env)
      in d)"


subsection \<open>Objects in a store\<close>

text \<open>
  The operations above treat the instances of the frozen classes as values. What a call
  of \<open>client()\<close> creates and shares is a matter of objects and references, so here the
  objects live in a store: one table for each class, an address is an index into the
  table, and constructing an object appends it. An endpoint object refers to its agent,
  and a client object to its endpoint and to its agent, by address.

  The agents are the objects with state of their own (connections, pools).
  \<open>_NetworkKubernetes\<close> and \<open>_NetworkClient\<close> are declared \<open>@attr.s(frozen=True)\<close>: no
  attribute of an instance can be assigned once it is constructed, so the tables
  \<open>endpoints\<close> and \<open>clients\<close> only ever grow.

  \<open>store_client\<close> is \<open>_NetworkKubernetes.client\<close> on this store:
  \<open>_NetworkClient(self, self._agent)\<close> constructs one client object from the address of the
  receiver and the address in the receiver's \<open>_agent\<close>. The two validators of
  \<open>_NetworkClient\<close> are the two lookups of \<open>new_NetworkClient\<close>. The result is \<open>None\<close> only
  for an address at which the store has no endpoint or agent, which no Python reference is.
\<close>

type_synonym addr = nat

record endpoint_cell =
  cell_base_url :: url
  cell_u_agent :: addr

record client_cell =
  cell_kubernetes :: addr
  cell_agent :: addr

record store =
  agents :: "agent list"
  endpoints :: "endpoint_cell list"
  clients :: "client_cell list"

definition at :: "'a list \<Rightarrow> addr \<Rightarrow> 'a option" where
  "at cells a = (if a < length cells then Some (cells ! a) else None)"

definition new_NetworkClient :: "store \<Rightarrow> addr \<Rightarrow> addr \<Rightarrow> (addr \<times> store) option" where
  "new_NetworkClient s k a =
     (case at (endpoints s) k of
        None \<Rightarrow> None
      | Some _ \<Rightarrow>
          (case at (agents s) a of
             None \<Rightarrow> None
           | Some _ \<Rightarrow>
               Some (length (clients s),
                     s\<lparr>clients := clients s @ [\<lparr>cell_kubernetes = k, cell_agent = a\<rparr>]\<rparr>)))"

definition store_client :: "store \<Rightarrow> addr \<Rightarrow> (addr \<times> store) option" where
  "store_client s self =
     (case at (endpoints s) self of
        None \<Rightarrow> None
      | Some e \<Rightarrow> new_NetworkClient s self (cell_u_agent e))"

text \<open>
  The value an object of the store stands for, with every reference followed: these are
  the records the operations above work on.
\<close>

definition endpoint_value :: "store \<Rightarrow> addr \<Rightarrow> NetworkKubernetes option" where
  "endpoint_value s k =
     (case at (endpoints s) k of
        None \<Rightarrow> None
      | Some e \<Rightarrow>
          (case at (agents s) (cell_u_agent e) of
             None \<Rightarrow> None
           | Some a \<Rightarrow> Some \<lparr>base_url = cell_base_url e, u_agent = a\<rparr>))"

definition client_value :: "store \<Rightarrow> addr \<Rightarrow> NetworkClient option" where
  "client_value s c =
     (case at (clients s) c of
        None \<Rightarrow> None
      | Some cl \<Rightarrow>
          (case endpoint_value s (cell_kubernetes cl) of
             None \<Rightarrow> None
           | Some k \<Rightarrow>
               (case at (agents s) (cell_agent cl) of
                  None \<Rightarrow> None
                | Some a \<Rightarrow> Some \<lparr>kubernetes = k, agent = a\<rparr>)))"


subsection \<open>Example values\<close>

text \<open>
  The values the examples below are evaluated on: an in-memory agent that answers every
  request with one fixed response, an endpoint for it, collaborators over text documents
  (a document is serialised as itself, and every byte string but \<open>not json\<close> parses), a
  pod, a pod with two further fields, one in the metadata and one in the object, and a
  store that holds one agent and one endpoint for it.
\<close>

definition fake_agent :: "int \<Rightarrow> string + bytes \<Rightarrow> agent" where
  "fake_agent status content = (\<lambda>request. Inr \<lparr>code = status, body = content\<rparr>)"

definition cluster :: "agent \<Rightarrow> NetworkKubernetes" where
  "cluster a = network_kubernetes \<lparr>origin = ''https://kube.example:443'', path = []\<rparr> a"

definition text_codec :: "(string, unit k8s_object, string) collaborators" where
  "text_codec =
     \<lparr>json_dumps = (\<lambda>document. document),
      json_loads = (\<lambda>raw. if raw = ''not json'' then None else Some raw),
      obj_to_raw = (\<lambda>obj. kind obj @ ''/'' @ name (metadata obj)),
      obj_from_raw = (\<lambda>document. Some document)\<rparr>"

definition pod_p1 :: "unit k8s_object" where
  "pod_p1 = \<lparr>kind = ''Pod'', metadata = \<lparr>name = ''p1'', namespace = Some ''ns1''\<rparr>\<rparr>"

definition labelled_pod :: "string \<Rightarrow> nat \<Rightarrow> (string, nat) k8s_object_scheme" where
  "labelled_pod uid replicas =
     \<lparr>kind = ''Pod'',
      metadata = \<lparr>name = ''p1'', namespace = Some ''ns1'', \<dots> = uid\<rparr>,
      \<dots> = replicas\<rparr>"

definition example_store :: store where
  "example_store =
     \<lparr>agents = [fake_agent 200 (Inr ''{}'')],
      endpoints = [\<lparr>cell_base_url = \<lparr>origin = ''https://kube.example:443'', path = []\<rparr>,
                    cell_u_agent = 0\<rparr>],
      clients = []\<rparr>"


section \<open>Properties\<close>

subsection \<open>Evaluation of \<open>lower\<close> on the kinds used below\<close>

lemma lower_Pod: "lower ''Pod'' = ''pod''"
  by code_simp

lemma lower_ConfigMap: "lower ''ConfigMap'' = ''configmap''"
  by code_simp

lemma lower_Namespace: "lower ''Namespace'' = ''namespace''"
  by code_simp


subsection \<open>Callback chains\<close>

lemma addCallback_Inl: "addCallback (sent, Inl exc) callback = (sent, Inl exc)"
  by (simp add: addCallback_def)

lemma addCallback_Inr:
  "addCallback (sent, Inr v) callback = (sent @ fst (callback v), snd (callback v))"
  by (simp add: addCallback_def split: prod.splits)

lemma addCallback_Failure: "addCallback (Failure exc) callback = Failure exc"
  by (simp add: Failure_def addCallback_Inl)

lemma addCallback_succeed: "addCallback (succeed v) callback = callback v"
  by (simp add: succeed_def addCallback_Inr)

lemma from_response_read:
  "from_response response =
     (case body response of
        Inl reason \<Rightarrow> Failure (ConnectionError reason)
      | Inr content \<Rightarrow> succeed (KubernetesError (code response) content))"
  by (simp add: from_response_def readBody_def addCallback_Failure addCallback_succeed
           split: sum.splits)

lemma check_status_expected:
  "code response \<in> set expected \<Longrightarrow> check_status response expected = succeed response"
  by (simp add: check_status_def)

lemma check_status_unexpected:
  "code response \<notin> set expected \<Longrightarrow>
     check_status response expected =
       (case body response of
          Inl reason \<Rightarrow> Failure (ConnectionError reason)
        | Inr content \<Rightarrow> Failure (KubernetesError (code response) content))"
  by (simp add: check_status_def from_response_read addCallback_Failure addCallback_succeed
           split: sum.splits)

lemma checked_body:
  "addCallback (addCallback (sent, Inr response) (\<lambda>response. check_status response expected))
       readBody =
     (case body response of
        Inl reason \<Rightarrow> (sent, Inl (ConnectionError reason))
      | Inr content \<Rightarrow>
          (if code response \<in> set expected then (sent, Inr content)
           else (sent, Inl (KubernetesError (code response) content))))"
  by (simp add: addCallback_Inl addCallback_Inr check_status_def from_response_read
        readBody_def Failure_def succeed_def Let_def split: sum.splits)

lemma decode_chain:
  "addCallback (addCallback (addCallback (sent, Inr content) (loads env))
       (\<lambda>document. succeed (log_response_object document))) (object_from_raw env) =
     (sent, case json_loads env content of
              None \<Rightarrow> Inl DecodeError
            | Some document \<Rightarrow>
                (case obj_from_raw env document of
                   None \<Rightarrow> Inl SchemaError
                 | Some v \<Rightarrow> Inr v))"
  by (simp add: addCallback_Inl addCallback_Inr loads_def object_from_raw_def
        log_response_object_def Failure_def succeed_def split: option.splits)

lemma decode_chain_list:
  "addCallback (addCallback (sent, Inr content) (loads env)) (object_from_raw env) =
     (sent, case json_loads env content of
              None \<Rightarrow> Inl DecodeError
            | Some document \<Rightarrow>
                (case obj_from_raw env document of
                   None \<Rightarrow> Inl SchemaError
                 | Some v \<Rightarrow> Inr v))"
  by (simp add: addCallback_Inl addCallback_Inr loads_def object_from_raw_def
        Failure_def succeed_def split: option.splits)

lemma u_request_sent:
  "u_request self meth url hdrs producer =
     ([\<lparr>http_method = meth, uri = url, headers = hdrs, bodyProducer = producer\<rparr>],
      case agent self \<lparr>http_method = meth, uri = url, headers = hdrs, bodyProducer = producer\<rparr> of
        Inl reason \<Rightarrow> Inl (ConnectionError reason)
      | Inr response \<Rightarrow> Inr response)"
  by (simp add: u_request_def Let_def)


subsection \<open>The four operations, stage by stage\<close>

text \<open>
  Each operation hands the agent exactly one request; its result is decided by the
  agent's answer, the body read, the status code and (but for \<open>delete\<close>) the two
  decoding steps, in this order.
\<close>

lemma create_unfold:
  "create env self obj =
     (let request = \<lparr>http_method = ''POST'',
                     uri = child (base_url (kubernetes self))
                             (collection_location (Instance obj)),
                     headers = None,
                     bodyProducer = Some \<lparr>u_data = json_dumps env (obj_to_raw env obj)\<rparr>\<rparr>
      in ([request],
          case agent self request of
            Inl reason \<Rightarrow> Inl (ConnectionError reason)
          | Inr response \<Rightarrow>
              (case body response of
                 Inl reason \<Rightarrow> Inl (ConnectionError reason)
               | Inr content \<Rightarrow>
                   (if code response = 201
                    then (case json_loads env content of
                            None \<Rightarrow> Inl DecodeError
                          | Some document \<Rightarrow>
                              (case obj_from_raw env document of
                                 None \<Rightarrow> Inl SchemaError
                               | Some v \<Rightarrow> Inr v))
                    else Inl (KubernetesError (code response) content)))))"
  apply (simp add: create_def u_post_def u_request_sent Let_def dumps_def to_raw_def CREATED_def)
  apply (cases "agent self \<lparr>http_method = ''POST'',
                     uri = child (base_url (kubernetes self))
                             (collection_location (Instance obj)),
                     headers = None,
                     bodyProducer = Some \<lparr>u_data = json_dumps env (obj_to_raw env obj)\<rparr>\<rparr>")
   apply (simp add: addCallback_Inl)
  apply (simp add: checked_body split: sum.splits)
  apply (simp add: addCallback_Inl decode_chain)
  done

lemma get_unfold:
  "get env self obj =
     (let request = \<lparr>http_method = ''GET'',
                     uri = child (base_url (kubernetes self)) (object_location obj),
                     headers = None, bodyProducer = None\<rparr>
      in ([request],
          case agent self request of
            Inl reason \<Rightarrow> Inl (ConnectionError reason)
          | Inr response \<Rightarrow>
              (case body response of
                 Inl reason \<Rightarrow> Inl (ConnectionError reason)
               | Inr content \<Rightarrow>
                   (if code response = 200
                    then (case json_loads env content of
                            None \<Rightarrow> Inl DecodeError
                          | Some document \<Rightarrow>
                              (case obj_from_raw env document of
                                 None \<Rightarrow> Inl SchemaError
                               | Some v \<Rightarrow> Inr v))
                    else Inl (KubernetesError (code response) content)))))"
  apply (simp add: get_def u_get_def u_request_sent Let_def OK_def)
  apply (cases "agent self \<lparr>http_method = ''GET'',
                     uri = child (base_url (kubernetes self)) (object_location obj),
                     headers = None, bodyProducer = None\<rparr>")
   apply (simp add: addCallback_Inl)
  apply (simp add: checked_body split: sum.splits)
  apply (simp add: addCallback_Inl decode_chain)
  done

lemma delete_unfold:
  "delete self obj =
     (let request = \<lparr>http_method = ''DELETE'',
                     uri = child (base_url (kubernetes self)) (object_location obj),
                     headers = None, bodyProducer = None\<rparr>
      in case agent self request of
           Inl reason \<Rightarrow> ([request], Inl (ConnectionError reason))
         | Inr response \<Rightarrow>
             (if code response = 200
              then (case body response of
                      Inl reason \<Rightarrow> ([request], Inl (ConnectionError reason))
                    | Inr content \<Rightarrow> ([request], Inr ()))
              else (case body response of
                      Inl reason \<Rightarrow> ([request], Inl (ConnectionError reason))
                    | Inr content \<Rightarrow>
                        ([request], Inl (KubernetesError (code response) content)))))"
  by (simp add: delete_def u_delete_def u_request_sent Let_def addCallback_Inl addCallback_Inr
        check_status_def from_response_read readBody_def OK_def Failure_def succeed_def
        split: sum.splits)

lemma list_unfold:
  "list env self knd =
     (let request = \<lparr>http_method = ''GET'',
                     uri = child (base_url (kubernetes self)) (collection_location knd),
                     headers = None, bodyProducer = None\<rparr>
      in ([request],
          case agent self request of
            Inl reason \<Rightarrow> Inl (ConnectionError reason)
          | Inr response \<Rightarrow>
              (case body response of
                 Inl reason \<Rightarrow> Inl (ConnectionError reason)
               | Inr content \<Rightarrow>
                   (if code response = 200
                    then (case json_loads env content of
                            None \<Rightarrow> Inl DecodeError
                          | Some document \<Rightarrow>
                              (case obj_from_raw env document of
                                 None \<Rightarrow> Inl SchemaError
                               | Some v \<Rightarrow> Inr v))
                    else Inl (KubernetesError (code response) content)))))"
  apply (simp add: list_def u_get_def u_request_sent Let_def OK_def)
  apply (cases "agent self \<lparr>http_method = ''GET'',
                     uri = child (base_url (kubernetes self)) (collection_location knd),
                     headers = None, bodyProducer = None\<rparr>")
   apply (simp add: addCallback_Inl)
  apply (simp add: checked_body split: sum.splits)
  apply (simp add: addCallback_Inl decode_chain_list)
  done

lemma collection_location_identity:
  "kind obj = kind obj' \<Longrightarrow> namespace (metadata obj) = namespace (metadata obj') \<Longrightarrow>
     collection_location (Instance obj) = collection_location (Instance obj')"
  by (simp add: collection_location_def)

lemma object_location_identity:
  "kind obj = kind obj' \<Longrightarrow> name (metadata obj) = name (metadata obj') \<Longrightarrow>
   namespace (metadata obj) = namespace (metadata obj') \<Longrightarrow>
     object_location obj = object_location obj'"
  by (simp add: object_location_def collection_location_identity [of obj obj'])


subsection \<open>The store\<close>

lemma at_append_old: "at cells a = Some x \<Longrightarrow> at (cells @ rest) a = Some x"
  by (auto simp add: at_def nth_append split: if_splits)

lemma at_append_new: "at (cells @ [x]) (length cells) = Some x"
  by (simp add: at_def)

lemma store_client_allocates:
  assumes "at (endpoints s) self = Some e" and "at (agents s) (cell_u_agent e) = Some a"
  shows "store_client s self
           = Some (length (clients s),
                   s\<lparr>clients := clients s
                        @ [\<lparr>cell_kubernetes = self, cell_agent = cell_u_agent e\<rparr>]\<rparr>)"
  using assms by (simp add: store_client_def new_NetworkClient_def)

lemma client_value_allocated:
  assumes "at (endpoints s) self = Some e" and "at (agents s) (cell_u_agent e) = Some a"
  shows "client_value
           (s\<lparr>clients := clients s
                @ [\<lparr>cell_kubernetes = self, cell_agent = cell_u_agent e\<rparr>]\<rparr>)
           (length (clients s))
         = Some (client \<lparr>base_url = cell_base_url e, u_agent = a\<rparr>)"
  using assms
  by (simp add: client_value_def endpoint_value_def at_append_new client_def)

lemma client_refers_to_endpoint:
  "kubernetes (client self) = self
   \<and> base_url (kubernetes (client self)) = base_url self
   \<and> agent (client self) = u_agent self
   \<and> client (network_kubernetes b a) = \<lparr>kubernetes = \<lparr>base_url = b, u_agent = a\<rparr>, agent = a\<rparr>"
  by (simp add: client_def network_kubernetes_def)


subsection \<open>Path builder\<close>

text \<open>
  C1: for a resource descriptor with kind \<open>k\<close> and a namespace \<open>ns\<close>,
  \<open>collection_location\<close> returns \<open>("api", "v1", "namespaces", ns, k.lower() + "s")\<close>; for
  one without a namespace (an object whose namespace is \<open>None\<close>, or a bare kind
  descriptor) it returns \<open>("api", "v1", k.lower() + "s")\<close>.
\<close>

theorem collection_location_segments:
  fixes obj :: "('m, 'z) k8s_object_scheme"
  shows
  "(namespace (metadata obj) = Some ns \<longrightarrow>
      collection_location (Instance obj)
        = [''api'', ''v1'', ''namespaces'', ns, lower (kind obj) @ ''s''])
   \<and> (namespace (metadata obj) = None \<longrightarrow>
      collection_location (Instance obj) = [''api'', ''v1'', lower (kind obj) @ ''s''])
   \<and> collection_location (Kind k :: ('m, 'z) resource) = [''api'', ''v1'', lower k @ ''s'']"
  by (simp add: collection_location_def)

theorem collection_location_segments_witness:
  "collection_location
     (Instance \<lparr>kind = ''Pod'', metadata = \<lparr>name = ''p1'', namespace = Some ''ns1''\<rparr>\<rparr>)
     = [''api'', ''v1'', ''namespaces'', ''ns1'', ''pods'']
   \<and> collection_location
     (Instance \<lparr>kind = ''Namespace'', metadata = \<lparr>name = ''ns1'', namespace = None\<rparr>\<rparr>)
     = [''api'', ''v1'', ''namespaces'']
   \<and> collection_location (Kind ''ConfigMap'' :: (unit, unit) resource)
     = [''api'', ''v1'', ''configmaps'']"
  using
    collection_location_segments
      [of "\<lparr>kind = ''Pod'', metadata = \<lparr>name = ''p1'', namespace = Some ''ns1''\<rparr>\<rparr>"
          "''ns1''" "''ConfigMap''"]
    collection_location_segments
      [of "\<lparr>kind = ''Namespace'', metadata = \<lparr>name = ''ns1'', namespace = None\<rparr>\<rparr>"
          "''x''" "''ConfigMap''"]
  by (simp add: lower_Pod lower_ConfigMap lower_Namespace)

text \<open>
  C2: for every object, \<open>object_location\<close> is \<open>collection_location\<close> of the object with
  the object's \<open>metadata.name\<close> appended as the last segment.
\<close>

theorem object_location_appends_name:
  "object_location obj = collection_location (Instance obj) @ [name (metadata obj)]
   \<and> butlast (object_location obj) = collection_location (Instance obj)
   \<and> last (object_location obj) = name (metadata obj)
   \<and> length (object_location obj) = Suc (length (collection_location (Instance obj)))"
  by (simp add: object_location_def)

theorem object_location_appends_name_witness:
  "object_location \<lparr>kind = ''Pod'', metadata = \<lparr>name = ''p1'', namespace = Some ''ns1''\<rparr>\<rparr>
     = [''api'', ''v1'', ''namespaces'', ''ns1'', ''pods'', ''p1'']
   \<and> object_location \<lparr>kind = ''Namespace'', metadata = \<lparr>name = ''ns1'', namespace = None\<rparr>\<rparr>
     = [''api'', ''v1'', ''namespaces'', ''ns1'']"
  using
    object_location_appends_name
      [of "\<lparr>kind = ''Pod'', metadata = \<lparr>name = ''p1'', namespace = Some ''ns1''\<rparr>\<rparr>"]
    object_location_appends_name
      [of "\<lparr>kind = ''Namespace'', metadata = \<lparr>name = ''ns1'', namespace = None\<rparr>\<rparr>"]
  by (simp add: collection_location_def lower_Pod lower_Namespace)


subsection \<open>Status codes\<close>

text \<open>
  C3: \<open>create\<close> expects the status 201 and no other. When the server answers the POST
  with a status other than 201 (with 200, say), the call never ends with a decoded
  object: it fails, and with the \<open>KubernetesError\<close> that carries this status and the
  body once the body has been read. With 201 the body goes on to the decoding steps.
\<close>

theorem create_expects_created:
  assumes "agent self
             \<lparr>http_method = ''POST'',
              uri = child (base_url (kubernetes self)) (collection_location (Instance obj)),
              headers = None,
              bodyProducer = Some \<lparr>u_data = dumps env (to_raw env obj)\<rparr>\<rparr> = Inr response"
  shows "(code response \<noteq> 201 \<longrightarrow> body response = Inr content \<longrightarrow>
            snd (create env self obj) = Inl (KubernetesError (code response) content))
         \<and> (code response \<noteq> 201 \<longrightarrow> (\<forall>v. snd (create env self obj) \<noteq> Inr v))
         \<and> (code response = 201 \<longrightarrow> body response = Inr content \<longrightarrow>
            snd (create env self obj) =
              (case json_loads env content of
                 None \<Rightarrow> Inl DecodeError
               | Some document \<Rightarrow>
                   (case obj_from_raw env document of
                      None \<Rightarrow> Inl SchemaError
                    | Some v \<Rightarrow> Inr v)))"
  using assms
  by (cases "body response") (simp_all add: create_unfold Let_def dumps_def to_raw_def)

theorem create_expects_created_witness:
  "snd (create text_codec (client (cluster (fake_agent 200 (Inr ''{}'')))) pod_p1)
     = Inl (KubernetesError 200 ''{}'')
   \<and> (\<forall>v. snd (create text_codec (client (cluster (fake_agent 200 (Inr ''{}'')))) pod_p1)
          \<noteq> Inr v)
   \<and> snd (create text_codec (client (cluster (fake_agent 201 (Inr ''{}'')))) pod_p1)
     = Inr ''{}''"
  using
    create_expects_created
      [of "client (cluster (fake_agent 200 (Inr ''{}'')))" pod_p1 text_codec
          "\<lparr>code = 200, body = Inr ''{}''\<rparr>" "''{}''"]
    create_expects_created
      [of "client (cluster (fake_agent 201 (Inr ''{}'')))" pod_p1 text_codec
          "\<lparr>code = 201, body = Inr ''{}''\<rparr>" "''{}''"]
  by (simp add: client_def cluster_def network_kubernetes_def fake_agent_def text_codec_def)

text \<open>
  C4: when the status code of the response is among the expected ones, \<open>check_status\<close>
  returns the response as it is. Otherwise it fails: with the \<open>KubernetesError\<close> made
  from the response, carrying its status code and its body, once the body has been
  read; and whatever callback comes later in the chain (the body read, the JSON parse,
  the decoding) does not run, the chain ends with that same failure.
\<close>

theorem check_status_validates:
  "(code response \<in> set expected \<longrightarrow> check_status response expected = succeed response)
   \<and> (code response \<notin> set expected \<longrightarrow> body response = Inr content \<longrightarrow>
        check_status response expected = Failure (KubernetesError (code response) content))
   \<and> (code response \<notin> set expected \<longrightarrow>
        (\<exists>exc. check_status response expected = Failure exc
              \<and> addCallback (check_status response expected) later = Failure exc))"
proof (intro conjI impI)
  assume "code response \<in> set expected"
  then show "check_status response expected = succeed response"
    by (rule check_status_expected)
next
  assume "code response \<notin> set expected" and "body response = Inr content"
  then show "check_status response expected = Failure (KubernetesError (code response) content)"
    by (simp add: check_status_unexpected)
next
  assume no: "code response \<notin> set expected"
  show "\<exists>exc. check_status response expected = Failure exc
              \<and> addCallback (check_status response expected) later = Failure exc"
  proof (cases "body response")
    case (Inl reason)
    with no have "check_status response expected = Failure (ConnectionError reason)"
      by (simp add: check_status_unexpected)
    then show ?thesis by (auto simp add: addCallback_Failure)
  next
    case (Inr content)
    with no have "check_status response expected
                    = Failure (KubernetesError (code response) content)"
      by (simp add: check_status_unexpected)
    then show ?thesis by (auto simp add: addCallback_Failure)
  qed
qed

theorem check_status_validates_witness:
  "check_status \<lparr>code = 200, body = Inr ''{}''\<rparr> [200] = succeed \<lparr>code = 200, body = Inr ''{}''\<rparr>
   \<and> check_status \<lparr>code = 404, body = Inr ''gone''\<rparr> [200]
       = Failure (KubernetesError 404 ''gone'')
   \<and> addCallback (check_status \<lparr>code = 404, body = Inr ''gone''\<rparr> [200]) readBody
       = Failure (KubernetesError 404 ''gone'')"
  using
    check_status_validates [of "\<lparr>code = 200, body = Inr ''{}''\<rparr>" "[200]" "''{}''" readBody]
    check_status_validates [of "\<lparr>code = 404, body = Inr ''gone''\<rparr>" "[200]" "''gone''" readBody]
  by (auto simp add: Failure_def)


subsection \<open>Delete\<close>

text \<open>
  C5: when the response to the DELETE has status 200, \<open>delete\<close> reads the body and
  discards what it read: the call sends the one DELETE request, and its result is \<open>None\<close>
  for every body that was read, whatever its bytes; only a body read that fails shows,
  as that failure.
\<close>

theorem delete_result_none:
  assumes "agent self
             \<lparr>http_method = ''DELETE'',
              uri = child (base_url (kubernetes self)) (object_location obj),
              headers = None, bodyProducer = None\<rparr> = Inr response"
    and "code response = 200"
  shows "delete self obj
           = ([\<lparr>http_method = ''DELETE'',
                uri = child (base_url (kubernetes self)) (object_location obj),
                headers = None, bodyProducer = None\<rparr>],
              case body response of
                Inl reason \<Rightarrow> Inl (ConnectionError reason)
              | Inr content \<Rightarrow> Inr ())
         \<and> (\<forall>content. body response = Inr content \<longrightarrow> snd (delete self obj) = Inr ())"
  using assms by (simp add: delete_unfold Let_def split: sum.splits)

theorem delete_result_none_witness:
  "snd (delete (client (cluster (fake_agent 200 (Inr ''{}'')))) pod_p1) = Inr ()
   \<and> snd (delete (client (cluster (fake_agent 200 (Inr ''not json'')))) pod_p1) = Inr ()
   \<and> delete (client (cluster (fake_agent 200 (Inl ''connection lost'')))) pod_p1
       = ([\<lparr>http_method = ''DELETE'',
            uri = \<lparr>origin = ''https://kube.example:443'',
                   path = [''api'', ''v1'', ''namespaces'', ''ns1'', ''pods'', ''p1'']\<rparr>,
            headers = None, bodyProducer = None\<rparr>],
          Inl (ConnectionError ''connection lost''))"
  using
    delete_result_none
      [of "client (cluster (fake_agent 200 (Inr ''{}'')))" pod_p1
          "\<lparr>code = 200, body = Inr ''{}''\<rparr>"]
    delete_result_none
      [of "client (cluster (fake_agent 200 (Inr ''not json'')))" pod_p1
          "\<lparr>code = 200, body = Inr ''not json''\<rparr>"]
    delete_result_none
      [of "client (cluster (fake_agent 200 (Inl ''connection lost'')))" pod_p1
          "\<lparr>code = 200, body = Inl ''connection lost''\<rparr>"]
  by (simp add: client_def cluster_def network_kubernetes_def fake_agent_def child_def
        pod_p1_def object_location_def collection_location_def lower_Pod)


subsection \<open>List\<close>

text \<open>
  C6: for a bare kind descriptor, the one request of \<open>list\<close> is a GET whose URL is the
  base URL extended by \<open>("api", "v1", kind.lower() + "s")\<close>; these segments are not a
  namespaced collection path, and neither is the URL, for any namespace.
\<close>

theorem list_kind_not_namespaced:
  "fst (list env self (Kind k :: ('m, 'z) resource))
     = [\<lparr>http_method = ''GET'',
         uri = child (base_url (kubernetes self)) [''api'', ''v1'', lower k @ ''s''],
         headers = None, bodyProducer = None\<rparr>]
   \<and> collection_location (Kind k :: ('m, 'z) resource)
       \<noteq> [''api'', ''v1'', ''namespaces'', ns, lower k @ ''s'']
   \<and> child (base_url (kubernetes self)) (collection_location (Kind k :: ('m, 'z) resource))
       \<noteq> child (base_url (kubernetes self))
            [''api'', ''v1'', ''namespaces'', ns, lower k @ ''s'']"
proof -
  have loc: "collection_location (Kind k :: ('m, 'z) resource) = [''api'', ''v1'', lower k @ ''s'']"
    by (simp add: collection_location_def)
  have "length (path (child b [''api'', ''v1'', lower k @ ''s'']))
          \<noteq> length (path (child b [''api'', ''v1'', ''namespaces'', ns, lower k @ ''s'']))" for b
    by (simp add: child_def)
  then have "child b [''api'', ''v1'', lower k @ ''s'']
          \<noteq> child b [''api'', ''v1'', ''namespaces'', ns, lower k @ ''s'']" for b
    by metis
  with loc show ?thesis
    by (simp add: list_unfold Let_def)
qed

theorem list_kind_not_namespaced_witness:
  "fst (list text_codec (client (cluster (fake_agent 200 (Inr ''[]''))))
          (Kind ''Pod'' :: (unit, unit) resource))
     = [\<lparr>http_method = ''GET'',
         uri = \<lparr>origin = ''https://kube.example:443'', path = [''api'', ''v1'', ''pods'']\<rparr>,
         headers = None, bodyProducer = None\<rparr>]"
  using list_kind_not_namespaced
    [of text_codec "client (cluster (fake_agent 200 (Inr ''[]'')))" "''Pod''" "''ns1''",
     where ?'m = unit and ?'z = unit]
  by (simp add: client_def cluster_def network_kubernetes_def child_def lower_Pod)


subsection \<open>Create\<close>

text \<open>
  C7: the one request of \<open>create\<close> is a POST whose body producer holds the bytes
  \<open>dumps(obj.to_raw())\<close>: these are the bytes it writes to the consumer, in one piece, and
  the length it declares is their number.
\<close>

theorem create_request_body:
  "\<exists>producer.
     fst (create env self obj)
       = [\<lparr>http_method = ''POST'',
           uri = child (base_url (kubernetes self)) (collection_location (Instance obj)),
           headers = None, bodyProducer = Some producer\<rparr>]
     \<and> u_data producer = dumps env (to_raw env obj)
     \<and> length_bp producer = length (dumps env (to_raw env obj))
     \<and> startProducing producer consumer = (consumer @ dumps env (to_raw env obj), succeed ())"
  by (simp add: create_unfold Let_def dumps_def to_raw_def length_bp_def startProducing_def)

theorem create_request_body_witness:
  "\<exists>producer.
     fst (create text_codec (client (cluster (fake_agent 201 (Inr ''Pod/p1'')))) pod_p1)
       = [\<lparr>http_method = ''POST'',
           uri = \<lparr>origin = ''https://kube.example:443'',
                  path = [''api'', ''v1'', ''namespaces'', ''ns1'', ''pods'']\<rparr>,
           headers = None, bodyProducer = Some producer\<rparr>]
     \<and> u_data producer = ''Pod/p1''
     \<and> length_bp producer = 6
     \<and> startProducing producer [] = (''Pod/p1'', succeed ())"
  using create_request_body
    [of text_codec "client (cluster (fake_agent 201 (Inr ''Pod/p1'')))" pod_p1 "[]"]
  by (auto simp add: client_def cluster_def network_kubernetes_def child_def pod_p1_def
        collection_location_def lower_Pod dumps_def to_raw_def text_codec_def)


subsection \<open>Get\<close>

text \<open>
  C8: \<open>get\<close> reads its argument's kind, namespace and name only. For two objects that
  agree on these three (and may differ in every other field), the requests are the
  same, to the same URL; when the agents answer that request alike, the whole outcome is
  the same; so it is, in particular, for one client.
\<close>

theorem get_identity_only:
  assumes "kind obj = kind obj'"
    and "name (metadata obj) = name (metadata obj')"
    and "namespace (metadata obj) = namespace (metadata obj')"
    and "base_url (kubernetes self) = base_url (kubernetes self')"
  shows "fst (get env self obj) = fst (get env self' obj')
         \<and> (agent self
               \<lparr>http_method = ''GET'',
                uri = child (base_url (kubernetes self)) (object_location obj),
                headers = None, bodyProducer = None\<rparr>
             = agent self'
               \<lparr>http_method = ''GET'',
                uri = child (base_url (kubernetes self)) (object_location obj),
                headers = None, bodyProducer = None\<rparr>
             \<longrightarrow> get env self obj = get env self' obj')
         \<and> get env self obj = get env self obj'"
  using assms object_location_identity [of obj obj']
  by (simp add: get_unfold Let_def)

theorem get_identity_only_witness:
  "get text_codec (client (cluster (fake_agent 200 (Inr ''Pod/p1''))))
       (labelled_pod ''uid-1'' 1)
     = get text_codec (client (cluster (fake_agent 200 (Inr ''Pod/p1''))))
         (labelled_pod ''uid-2'' 7)
   \<and> labelled_pod ''uid-1'' 1 \<noteq> labelled_pod ''uid-2'' 7"
  using get_identity_only
    [of "labelled_pod ''uid-1'' 1" "labelled_pod ''uid-2'' 7"
        "client (cluster (fake_agent 200 (Inr ''Pod/p1'')))"
        "client (cluster (fake_agent 200 (Inr ''Pod/p1'')))"
        text_codec]
  by (simp add: labelled_pod_def)


subsection \<open>The endpoint\<close>

text \<open>
  C9: every call of \<open>client()\<close> on an endpoint of the store returns a new client object
  that refers to that endpoint and to that endpoint's agent, by their addresses; read as
  a value it is \<open>client\<close> of the endpoint's value, with the same base URL and the same
  agent. The call creates nothing else: the agents and the endpoints of the store are
  as they were, every client object that existed is as it was, and the one object
  added is an instance of the frozen class. The endpoint is unchanged, so the next call
  does the same, with the same two addresses.
\<close>

theorem client_pure_factory:
  assumes "at (endpoints s) self = Some e"
    and "at (agents s) (cell_u_agent e) = Some a"
    and "s' = s\<lparr>clients := clients s
                  @ [\<lparr>cell_kubernetes = self, cell_agent = cell_u_agent e\<rparr>]\<rparr>"
    and "k = \<lparr>base_url = cell_base_url e, u_agent = a\<rparr>"
  shows "store_client s self = Some (length (clients s), s')
         \<and> agents s' = agents s
         \<and> endpoints s' = endpoints s
         \<and> (\<forall>c cl. at (clients s) c = Some cl \<longrightarrow> at (clients s') c = Some cl)
         \<and> endpoint_value s self = Some k
         \<and> endpoint_value s' self = Some k
         \<and> client_value s' (length (clients s)) = Some (client k)
         \<and> kubernetes (client k) = k
         \<and> base_url (kubernetes (client k)) = base_url k
         \<and> agent (client k) = u_agent k
         \<and> store_client s' self
             = Some (Suc (length (clients s)),
                     s'\<lparr>clients := clients s'
                          @ [\<lparr>cell_kubernetes = self, cell_agent = cell_u_agent e\<rparr>]\<rparr>)"
proof -
  have e1: "at (endpoints s') self = Some e" and a1: "at (agents s') (cell_u_agent e) = Some a"
    using assms by simp_all
  have first: "store_client s self = Some (length (clients s), s')"
    using assms(1,2) unfolding assms(3) by (rule store_client_allocates)
  have second: "store_client s' self
             = Some (length (clients s'),
                     s'\<lparr>clients := clients s'
                          @ [\<lparr>cell_kubernetes = self, cell_agent = cell_u_agent e\<rparr>]\<rparr>)"
    using e1 a1 by (rule store_client_allocates)
  have len: "length (clients s') = Suc (length (clients s))"
    using assms(3) by simp
  have kept: "\<forall>c cl. at (clients s) c = Some cl \<longrightarrow> at (clients s') c = Some cl"
    using assms(3) by (simp add: at_append_old)
  have kv: "endpoint_value s self = Some k" "endpoint_value s' self = Some k"
    using assms by (simp_all add: endpoint_value_def)
  have cv: "client_value s' (length (clients s)) = Some (client k)"
    using assms(1,2) unfolding assms(3,4) by (rule client_value_allocated)
  show ?thesis
    using first second len kept kv cv assms(3) client_refers_to_endpoint [of k]
    by simp
qed

theorem client_pure_factory_witness:
  "store_client example_store 0
     = Some (0, example_store\<lparr>clients := [\<lparr>cell_kubernetes = 0, cell_agent = 0\<rparr>]\<rparr>)
   \<and> client_value (example_store\<lparr>clients := [\<lparr>cell_kubernetes = 0, cell_agent = 0\<rparr>]\<rparr>) 0
     = Some (client (cluster (fake_agent 200 (Inr ''{}''))))
   \<and> store_client (example_store\<lparr>clients := [\<lparr>cell_kubernetes = 0, cell_agent = 0\<rparr>]\<rparr>) 0
     = Some (1, example_store\<lparr>clients := [\<lparr>cell_kubernetes = 0, cell_agent = 0\<rparr>,
                                            \<lparr>cell_kubernetes = 0, cell_agent = 0\<rparr>]\<rparr>)"
  using client_pure_factory
    [of example_store 0
        "\<lparr>cell_base_url = \<lparr>origin = ''https://kube.example:443'', path = []\<rparr>,
          cell_u_agent = 0\<rparr>"
        "fake_agent 200 (Inr ''{}'')"
        "example_store\<lparr>clients := [\<lparr>cell_kubernetes = 0, cell_agent = 0\<rparr>]\<rparr>"
        "cluster (fake_agent 200 (Inr ''{}''))"]
  by (simp add: example_store_def at_def cluster_def network_kubernetes_def)


subsection \<open>Delete never decodes\<close>

text \<open>
  C10: \<open>delete\<close> never ends with a \<open>DecodeError\<close> (nor with a schema error): it parses
  nothing. When the status of the response is the expected one, the result is decided
  by the body read alone, \<open>None\<close> for every body that was read, whatever its bytes.
\<close>

theorem delete_never_decodes:
  "snd (delete self obj) \<noteq> Inl DecodeError
   \<and> snd (delete self obj) \<noteq> Inl SchemaError
   \<and> (agent self
         \<lparr>http_method = ''DELETE'',
          uri = child (base_url (kubernetes self)) (object_location obj),
          headers = None, bodyProducer = None\<rparr> = Inr response \<longrightarrow>
       code response \<in> set [OK] \<longrightarrow>
         snd (delete self obj) =
           (case body response of
              Inl reason \<Rightarrow> Inl (ConnectionError reason)
            | Inr content \<Rightarrow> Inr ()))"
  by (simp add: delete_unfold Let_def OK_def split: sum.splits)

theorem delete_never_decodes_witness:
  "snd (delete (client (cluster (fake_agent 200 (Inr ''not json'')))) pod_p1) = Inr ()
   \<and> json_loads text_codec ''not json'' = None
   \<and> snd (get text_codec (client (cluster (fake_agent 200 (Inr ''not json'')))) pod_p1)
       = Inl DecodeError"
  using delete_never_decodes
    [of "client (cluster (fake_agent 200 (Inr ''not json'')))" pod_p1
        "\<lparr>code = 200, body = Inr ''not json''\<rparr>"]
  by (simp add: client_def cluster_def network_kubernetes_def fake_agent_def OK_def
        get_unfold Let_def text_codec_def)

end
